theory Spec2Isabelle
  imports Main "HOL-Library.Sublist"
begin

section \<open>JSON values and the Python operations applied to them\<close>

text \<open>
  A decoded message is what \<^verbatim>\<open>json.loads\<close> returns. Numbers are the integers
  (Python's unbounded \<^verbatim>\<open>int\<close>); fractional numbers are not modelled. An object is the
  list of its items in insertion order, as a Python \<^verbatim>\<open>dict\<close> keeps them; its keys are
  distinct, so looking a key up is \<^const>\<open>map_of\<close>.
\<close>

datatype json =
    JNull
  | JBool bool
  | JNum int
  | JStr string
  | JArr "json list"
  | JObj "(string \<times> json) list"

text \<open>
  Exceptions. A \<^verbatim>\<open>py_exception\<close> is an instance of \<^verbatim>\<open>Exception\<close>: the class that an
  \<^verbatim>\<open>except\<close> clause tests and the text \<^verbatim>\<open>str(e)\<close>. \<^verbatim>\<open>ValueError\<close> stands for that class
  and its subclasses (\<^verbatim>\<open>JSONDecodeError\<close>, which has a clause of its own, apart),
  \<^verbatim>\<open>OtherException\<close> for every class not named here. What a callable raises is a
  \<^verbatim>\<open>raised\<close>: such a fault, or one of the exceptions that derive from \<^verbatim>\<open>BaseException\<close>
  and not from \<^verbatim>\<open>Exception\<close>, which no \<^verbatim>\<open>except Exception\<close> clause catches.
\<close>

datatype exc_class =
  ValueError | TypeError | AttributeError | KeyError | RecursionError | BrokenPipeError
  | OtherException

datatype py_exception = Exc (exc_class: exc_class) (exc_str: string)

datatype exit_class = SystemExit | KeyboardInterrupt | GeneratorExit

datatype raised = Fault py_exception | Exit exit_class string

definition sq :: string where
  "sq = [CHR 0x27]"

fun type_name :: "json \<Rightarrow> string" where
  "type_name JNull = ''NoneType''"
| "type_name (JBool b) = ''bool''"
| "type_name (JNum n) = ''int''"
| "type_name (JStr s) = ''str''"
| "type_name (JArr xs) = ''list''"
| "type_name (JObj kvs) = ''dict''"

definition no_attribute :: "json \<Rightarrow> string \<Rightarrow> py_exception" where
  "no_attribute v a =
     Exc AttributeError (sq @ type_name v @ sq @ '' object has no attribute '' @ sq @ a @ sq)"

text \<open>\<^verbatim>\<open>v.get(k, d)\<close>: only a dict has the method.\<close>

fun py_get :: "json \<Rightarrow> string \<Rightarrow> json \<Rightarrow> py_exception + json" where
  "py_get (JObj kvs) k d = Inr (case map_of kvs k of None \<Rightarrow> d | Some v \<Rightarrow> v)"
| "py_get JNull k d = Inl (no_attribute JNull ''get'')"
| "py_get (JBool b) k d = Inl (no_attribute (JBool b) ''get'')"
| "py_get (JNum n) k d = Inl (no_attribute (JNum n) ''get'')"
| "py_get (JStr s) k d = Inl (no_attribute (JStr s) ''get'')"
| "py_get (JArr xs) k d = Inl (no_attribute (JArr xs) ''get'')"

text \<open>
  A value used as a dictionary key must be hashable: lists and dicts raise
  \<^verbatim>\<open>TypeError\<close>, the scalars are keys.
\<close>

datatype key = KNone | KBool bool | KInt int | KStr string

fun hash_key :: "json \<Rightarrow> py_exception + key" where
  "hash_key JNull = Inr KNone"
| "hash_key (JBool b) = Inr (KBool b)"
| "hash_key (JNum n) = Inr (KInt n)"
| "hash_key (JStr s) = Inr (KStr s)"
| "hash_key (JArr xs) = Inl (Exc TypeError (''unhashable type: '' @ sq @ ''list'' @ sq))"
| "hash_key (JObj kvs) = Inl (Exc TypeError (''unhashable type: '' @ sq @ ''dict'' @ sq))"

text \<open>Lookup of a key in a dict whose keys are strings: only a string can be equal to one.\<close>

fun lookup_str :: "key \<Rightarrow> (string \<rightharpoonup> 'a) \<Rightarrow> 'a option" where
  "lookup_str (KStr s) d = d s"
| "lookup_str KNone d = None"
| "lookup_str (KBool b) d = None"
| "lookup_str (KInt n) d = None"

fun show_nat :: "nat \<Rightarrow> string" where
  "show_nat n =
     (if n < 10 then [char_of (48 + n)] else show_nat (n div 10) @ [char_of (48 + n mod 10)])"

declare show_nat.simps [simp del]

definition show_int :: "int \<Rightarrow> string" where
  "show_int i = (if i < 0 then ''-'' @ show_nat (nat (- i)) else show_nat (nat i))"

text \<open>\<^verbatim>\<open>str(k)\<close>, as an f-string formats a scalar.\<close>

fun key_str :: "key \<Rightarrow> string" where
  "key_str KNone = ''None''"
| "key_str (KBool b) = (if b then ''True'' else ''False'')"
| "key_str (KInt n) = show_int n"
| "key_str (KStr s) = s"

text \<open>
  \<^verbatim>\<open>repr\<close> of a string, which is the text of a \<^verbatim>\<open>KeyError\<close> on a string key: quoted, with
  the quote, the backslash and the characters that are not printable escaped.
\<close>

definition hex_digit :: "nat \<Rightarrow> char" where
  "hex_digit d = (if d < 10 then char_of (48 + d) else char_of (87 + d))"

definition repr_char :: "char \<Rightarrow> char \<Rightarrow> string" where
  "repr_char q c =
     (if c = CHR 0x5C then [CHR 0x5C, CHR 0x5C]
      else if c = q then [CHR 0x5C, q]
      else if c = CHR 0x0A then [CHR 0x5C, CHR ''n'']
      else if c = CHR 0x0D then [CHR 0x5C, CHR ''r'']
      else if c = CHR 0x09 then [CHR 0x5C, CHR ''t'']
      else if of_char c < (32 :: nat) \<or> (127 \<le> (of_char c :: nat) \<and> of_char c \<le> (160 :: nat))
              \<or> of_char c = (173 :: nat)
        then [CHR 0x5C, CHR ''x'', hex_digit (of_char c div 16), hex_digit (of_char c mod 16)]
      else [c])"

definition py_repr :: "string \<Rightarrow> string" where
  "py_repr s =
     (let q = (if CHR 0x27 \<in> set s \<and> CHR 0x22 \<notin> set s then CHR 0x22 else CHR 0x27)
      in [q] @ concat (map (repr_char q) s) @ [q])"

text \<open>
  \<^verbatim>\<open>str.strip()\<close> removes the whitespace of \<^verbatim>\<open>str.isspace\<close> at both ends.
\<close>

definition py_space :: "char \<Rightarrow> bool" where
  "py_space c = (c \<in> set [CHR 0x09, CHR 0x0A, CHR 0x0B, CHR 0x0C, CHR 0x0D,
                          CHR 0x1C, CHR 0x1D, CHR 0x1E, CHR 0x1F, CHR 0x20, CHR 0x85, CHR 0xA0])"

definition py_strip :: "string \<Rightarrow> string" where
  "py_strip s = rev (dropWhile py_space (rev (dropWhile py_space s)))"


section \<open>The server: \<^verbatim>\<open>mcp_server.py\<close>\<close>

datatype ErrorCode = PARSE_ERROR | INVALID_REQUEST | METHOD_NOT_FOUND | INVALID_PARAMS | INTERNAL_ERROR

fun error_value :: "ErrorCode \<Rightarrow> int" where
  "error_value PARSE_ERROR = - 32700"
| "error_value INVALID_REQUEST = - 32600"
| "error_value METHOD_NOT_FOUND = - 32601"
| "error_value INVALID_PARAMS = - 32602"
| "error_value INTERNAL_ERROR = - 32603"

record tool =
  tool_name :: string
  tool_description :: string
  inputSchema :: json

record resource =
  resource_uri :: string
  resource_name :: string
  resource_description :: string
  mimeType :: string

record prompt =
  prompt_name :: string
  prompt_description :: string
  prompt_arguments :: "json list"

definition asdict_tool :: "tool \<Rightarrow> json" where
  "asdict_tool t = JObj [(''name'', JStr (tool_name t)),
                         (''description'', JStr (tool_description t)),
                         (''inputSchema'', inputSchema t)]"

definition asdict_resource :: "resource \<Rightarrow> json" where
  "asdict_resource r = JObj [(''uri'', JStr (resource_uri r)),
                             (''name'', JStr (resource_name r)),
                             (''description'', JStr (resource_description r)),
                             (''mimeType'', JStr (mimeType r))]"

definition asdict_prompt :: "prompt \<Rightarrow> json" where
  "asdict_prompt p = JObj [(''name'', JStr (prompt_name p)),
                           (''description'', JStr (prompt_description p)),
                           (''arguments'', JArr (prompt_arguments p))]"

text \<open>
  The callbacks are supplied by the application, and they may raise anything. A tool
  handler maps the arguments to what it raises or to \<^verbatim>\<open>str(result)\<close>, the only use the
  server makes of the result; a resource handler takes no argument, so it is its
  outcome; a prompt handler maps the arguments to what it raises or to the messages.

  \<^verbatim>\<open>calls\<close> records every invocation of a callable, in order: the entry of
  \<^verbatim>\<open>self.methods\<close> invoked by \<^verbatim>\<open>handle_request\<close> and the registered callbacks invoked by
  the method handlers. \<^verbatim>\<open>stdout\<close> is the sequence of messages written by
  \<^verbatim>\<open>_write_message\<close>. Log records are not part of the state.
\<close>

datatype call = MethodCall string | ToolCall string | ResourceCall string | PromptCall string

record server =
  server_name :: string
  server_version :: string
  protocol_version :: string
  initialized :: bool
  tools :: "(string \<times> tool) list"
  tool_handlers :: "string \<rightharpoonup> (json \<Rightarrow> raised + string)"
  resources :: "(string \<times> resource) list"
  resource_handlers :: "string \<rightharpoonup> (raised + json)"
  prompts :: "(string \<times> prompt) list"
  prompt_handlers :: "string \<rightharpoonup> (json \<Rightarrow> raised + json)"
  calls :: "call list"
  stdout :: "json list"

type_synonym method_result = "(raised + json) \<times> server"

definition new_server :: "string \<Rightarrow> string \<Rightarrow> server" where
  "new_server nm ver =
     \<lparr> server_name = nm, server_version = ver, protocol_version = ''2024-11-05'',
       initialized = False,
       tools = [], tool_handlers = Map.empty,
       resources = [], resource_handlers = Map.empty,
       prompts = [], prompt_handlers = Map.empty,
       calls = [], stdout = [] \<rparr>"

text \<open>Assignment \<^verbatim>\<open>d[k] = v\<close> on an insertion-ordered dict.\<close>

fun dict_set :: "string \<Rightarrow> 'a \<Rightarrow> (string \<times> 'a) list \<Rightarrow> (string \<times> 'a) list" where
  "dict_set k v [] = [(k, v)]"
| "dict_set k v (p # ps) = (if fst p = k then (k, v) # ps else p # dict_set k v ps)"

definition register_tool ::
  "server \<Rightarrow> string \<Rightarrow> string \<Rightarrow> json \<Rightarrow> (json \<Rightarrow> raised + string) \<Rightarrow> server" where
  "register_tool srv nm description input_schema handler =
     srv\<lparr> tools := dict_set nm
                      \<lparr> tool_name = nm, tool_description = description,
                        inputSchema = input_schema \<rparr> (tools srv),
          tool_handlers := (tool_handlers srv)(nm \<mapsto> handler) \<rparr>"

definition register_resource ::
  "server \<Rightarrow> string \<Rightarrow> string \<Rightarrow> string \<Rightarrow> string \<Rightarrow> (raised + json) \<Rightarrow> server" where
  "register_resource srv uri nm description mime_type handler =
     srv\<lparr> resources := dict_set uri
                          \<lparr> resource_uri = uri, resource_name = nm,
                            resource_description = description, mimeType = mime_type \<rparr>
                          (resources srv),
          resource_handlers := (resource_handlers srv)(uri \<mapsto> handler) \<rparr>"

definition register_prompt ::
  "server \<Rightarrow> string \<Rightarrow> string \<Rightarrow> json list \<Rightarrow> (json \<Rightarrow> raised + json) \<Rightarrow> server" where
  "register_prompt srv nm description args handler =
     srv\<lparr> prompts := dict_set nm
                        \<lparr> prompt_name = nm, prompt_description = description,
                          prompt_arguments = args \<rparr> (prompts srv),
          prompt_handlers := (prompt_handlers srv)(nm \<mapsto> handler) \<rparr>"


subsection \<open>Method handlers\<close>

definition handle_initialize :: "server \<Rightarrow> json \<Rightarrow> method_result" where
  "handle_initialize srv params =
     (case py_get params ''protocolVersion'' JNull of
        Inl e \<Rightarrow> (Inl (Fault e), srv)
      | Inr client_protocol \<Rightarrow>
          (case py_get params ''clientInfo'' (JObj []) of
             Inl e \<Rightarrow> (Inl (Fault e), srv)
           | Inr client_info \<Rightarrow>
               (case py_get client_info ''name'' JNull of
                  Inl e \<Rightarrow> (Inl (Fault e), srv)
                | Inr client_name \<Rightarrow>
                    (Inr (JObj [(''protocolVersion'', JStr (protocol_version srv)),
                                (''capabilities'',
                                   JObj [(''resources'', JObj []), (''tools'', JObj []),
                                         (''prompts'', JObj []), (''logging'', JObj [])]),
                                (''serverInfo'',
                                   JObj [(''name'', JStr (server_name srv)),
                                         (''version'', JStr (server_version srv))])]),
                     srv\<lparr> initialized := True \<rparr>))))"

definition handle_tools_list :: "server \<Rightarrow> json \<Rightarrow> method_result" where
  "handle_tools_list srv params =
     (Inr (JObj [(''tools'', JArr (map (asdict_tool \<circ> snd) (tools srv)))]), srv)"

definition tool_content :: "string \<Rightarrow> bool \<Rightarrow> json" where
  "tool_content text is_error =
     JObj [(''content'', JArr [JObj [(''type'', JStr ''text''), (''text'', JStr text)]]),
           (''isError'', JBool is_error)]"

definition handle_tools_call :: "server \<Rightarrow> json \<Rightarrow> method_result" where
  "handle_tools_call srv params =
     (case py_get params ''name'' JNull of
        Inl e \<Rightarrow> (Inl (Fault e), srv)
      | Inr tool_nm \<Rightarrow>
          (case py_get params ''arguments'' (JObj []) of
             Inl e \<Rightarrow> (Inl (Fault e), srv)
           | Inr arguments \<Rightarrow>
               (case hash_key tool_nm of
                  Inl e \<Rightarrow> (Inl (Fault e), srv)
                | Inr k \<Rightarrow>
                    (case lookup_str k (tool_handlers srv) of
                       None \<Rightarrow> (Inl (Fault (Exc ValueError (''Tool not found: '' @ key_str k))), srv)
                     | Some handler \<Rightarrow>
                         (case handler arguments of
                            Inr result \<Rightarrow>
                              (Inr (tool_content result False),
                               srv\<lparr> calls := calls srv @ [ToolCall (key_str k)] \<rparr>)
                          | Inl (Fault e) \<Rightarrow>
                              (Inr (tool_content (''Error: '' @ exc_str e) True),
                               srv\<lparr> calls := calls srv @ [ToolCall (key_str k)] \<rparr>)
                          | Inl (Exit x t) \<Rightarrow>
                              (Inl (Exit x t),
                               srv\<lparr> calls := calls srv @ [ToolCall (key_str k)] \<rparr>))))))"

definition handle_resources_list :: "server \<Rightarrow> json \<Rightarrow> method_result" where
  "handle_resources_list srv params =
     (Inr (JObj [(''resources'', JArr (map (asdict_resource \<circ> snd) (resources srv)))]), srv)"

definition handle_resources_read :: "server \<Rightarrow> json \<Rightarrow> method_result" where
  "handle_resources_read srv params =
     (case py_get params ''uri'' JNull of
        Inl e \<Rightarrow> (Inl (Fault e), srv)
      | Inr uri \<Rightarrow>
          (case hash_key uri of
             Inl e \<Rightarrow> (Inl (Fault e), srv)
           | Inr k \<Rightarrow>
               (case lookup_str k (resource_handlers srv) of
                  None \<Rightarrow> (Inl (Fault (Exc ValueError (''Resource not found: '' @ key_str k))), srv)
                | Some handler \<Rightarrow>
                    (case handler of
                       Inl x \<Rightarrow> (Inl x, srv\<lparr> calls := calls srv @ [ResourceCall (key_str k)] \<rparr>)
                     | Inr content \<Rightarrow>
                         (case map_of (resources srv) (key_str k) of
                            None \<Rightarrow>
                              (Inl (Fault (Exc KeyError (py_repr (key_str k)))),
                               srv\<lparr> calls := calls srv @ [ResourceCall (key_str k)] \<rparr>)
                          | Some r \<Rightarrow>
                              (Inr (JObj [(''contents'',
                                      JArr [JObj [(''uri'', uri),
                                                  (''mimeType'', JStr (mimeType r)),
                                                  (''text'', content)]])]),
                               srv\<lparr> calls := calls srv @ [ResourceCall (key_str k)] \<rparr>))))))"

definition handle_prompts_list :: "server \<Rightarrow> json \<Rightarrow> method_result" where
  "handle_prompts_list srv params =
     (Inr (JObj [(''prompts'', JArr (map (asdict_prompt \<circ> snd) (prompts srv)))]), srv)"

definition handle_prompts_get :: "server \<Rightarrow> json \<Rightarrow> method_result" where
  "handle_prompts_get srv params =
     (case py_get params ''name'' JNull of
        Inl e \<Rightarrow> (Inl (Fault e), srv)
      | Inr prompt_nm \<Rightarrow>
          (case py_get params ''arguments'' (JObj []) of
             Inl e \<Rightarrow> (Inl (Fault e), srv)
           | Inr arguments \<Rightarrow>
               (case hash_key prompt_nm of
                  Inl e \<Rightarrow> (Inl (Fault e), srv)
                | Inr k \<Rightarrow>
                    (case lookup_str k (prompt_handlers srv) of
                       None \<Rightarrow> (Inl (Fault (Exc ValueError (''Prompt not found: '' @ key_str k))), srv)
                     | Some handler \<Rightarrow>
                         (case handler arguments of
                            Inl x \<Rightarrow> (Inl x, srv\<lparr> calls := calls srv @ [PromptCall (key_str k)] \<rparr>)
                          | Inr messages \<Rightarrow>
                              (case map_of (prompts srv) (key_str k) of
                                 None \<Rightarrow>
                                   (Inl (Fault (Exc KeyError (py_repr (key_str k)))),
                                    srv\<lparr> calls := calls srv @ [PromptCall (key_str k)] \<rparr>)
                               | Some p \<Rightarrow>
                                   (Inr (JObj [(''description'', JStr (prompt_description p)),
                                               (''messages'', messages)]),
                                    srv\<lparr> calls := calls srv @ [PromptCall (key_str k)] \<rparr>)))))))"

text \<open>The table \<^verbatim>\<open>self.methods\<close>, filled by the constructor and never changed.\<close>

definition methods :: "string \<rightharpoonup> (server \<Rightarrow> json \<Rightarrow> method_result)" where
  "methods = map_of
     [(''initialize'', handle_initialize),
      (''tools/list'', handle_tools_list),
      (''tools/call'', handle_tools_call),
      (''resources/list'', handle_resources_list),
      (''resources/read'', handle_resources_read),
      (''prompts/list'', handle_prompts_list),
      (''prompts/get'', handle_prompts_get)]"

subsection \<open>The router\<close>

definition create_error_response ::
  "json \<Rightarrow> ErrorCode \<Rightarrow> string \<Rightarrow> (string \<times> json) list option \<Rightarrow> json" where
  "create_error_response request_id code message data =
     JObj [(''jsonrpc'', JStr ''2.0''),
           (''id'', request_id),
           (''error'',
              JObj ([(''code'', JNum (error_value code)), (''message'', JStr message)] @
                    (case data of
                       None \<Rightarrow> []
                     | Some d \<Rightarrow> (if d = [] then [] else [(''data'', JObj d)]))))]"

definition create_success_response :: "json \<Rightarrow> json \<Rightarrow> json" where
  "create_success_response request_id result =
     JObj [(''jsonrpc'', JStr ''2.0''), (''id'', request_id), (''result'', result)]"

definition write_message :: "server \<Rightarrow> json \<Rightarrow> server" where
  "write_message srv message = srv\<lparr> stdout := stdout srv @ [message] \<rparr>"

text \<open>
  \<^verbatim>\<open>handle_request\<close> returns the reply to write, if any, or what leaves it: the three
  \<^verbatim>\<open>request.get\<close> calls and the test \<^verbatim>\<open>method not in self.methods\<close> stand outside the
  \<^verbatim>\<open>try\<close>, and its two clauses, \<^verbatim>\<open>except ValueError\<close> and \<^verbatim>\<open>except Exception\<close>, let pass
  what is no instance of \<^verbatim>\<open>Exception\<close>.
\<close>

definition handle_request :: "server \<Rightarrow> json \<Rightarrow> (raised + json option) \<times> server" where
  "handle_request srv request =
     (case py_get request ''id'' JNull of
        Inl e \<Rightarrow> (Inl (Fault e), srv)
      | Inr request_id \<Rightarrow>
     (case py_get request ''method'' JNull of
        Inl e \<Rightarrow> (Inl (Fault e), srv)
      | Inr method \<Rightarrow>
     (case py_get request ''params'' (JObj []) of
        Inl e \<Rightarrow> (Inl (Fault e), srv)
      | Inr params \<Rightarrow>
     (let is_notification = (request_id = JNull) in
      if method = JStr ''notifications/initialized'' then (Inr None, srv)
      else
        (case hash_key method of
           Inl e \<Rightarrow> (Inl (Fault e), srv)
         | Inr k \<Rightarrow>
             (case lookup_str k methods of
                None \<Rightarrow>
                  (if is_notification then (Inr None, srv)
                   else (Inr (Some (create_error_response request_id METHOD_NOT_FOUND
                                      (''Method not found: '' @ key_str k)
                                      (Some [(''method'', method)]))), srv))
              | Some handler \<Rightarrow>
                  (case handler (srv\<lparr> calls := calls srv @ [MethodCall (key_str k)] \<rparr>) params of
                     (Inr result, srv') \<Rightarrow>
                       (if is_notification then (Inr None, srv')
                        else (Inr (Some (create_success_response request_id result)), srv'))
                   | (Inl (Fault e), srv') \<Rightarrow>
                       (if exc_class e = ValueError then
                          (if is_notification then (Inr None, srv')
                           else (Inr (Some (create_error_response request_id INVALID_PARAMS
                                              (exc_str e) None)), srv'))
                        else
                          (if is_notification then (Inr None, srv')
                           else (Inr (Some (create_error_response request_id INTERNAL_ERROR
                                              ''Internal server error''
                                              (Some [(''details'', JStr (exc_str e))]))),
                                 srv')))
                   | (Inl (Exit x t), srv') \<Rightarrow> (Inl (Exit x t), srv'))))))))"

text \<open>
  \<^verbatim>\<open>run\<close> iterates over standard input. An item of the stream is a line of text, or
  bytes that the text layer cannot decode: then the \<^verbatim>\<open>for\<close> statement itself raises
  \<^verbatim>\<open>UnicodeDecodeError\<close>, a \<^verbatim>\<open>ValueError\<close>, with the text carried here. \<^verbatim>\<open>loads\<close> is
  \<^verbatim>\<open>json.loads\<close>, a parameter: it returns a value, raises \<^verbatim>\<open>JSONDecodeError\<close>, or raises
  another exception (\<^verbatim>\<open>RecursionError\<close> on deep nesting, a plain \<^verbatim>\<open>ValueError\<close> on a
  number with too many digits).

  The loop catches \<^verbatim>\<open>JSONDecodeError\<close> alone and goes on. It ends when the input does;
  when any other instance of \<^verbatim>\<open>Exception\<close> reaches the outer \<^verbatim>\<open>try\<close>, which logs it and
  exits with status 1; when \<^verbatim>\<open>KeyboardInterrupt\<close> does, after which \<^verbatim>\<open>run\<close> returns; or
  when another exit passes through it.
\<close>

datatype inbound = Text string | Undecodable string

datatype decoded = Value json | JSONDecodeError | Raises py_exception

datatype run_exit = Finished | Exited py_exception | Interrupted | Escaped exit_class string

fun run :: "(string \<Rightarrow> decoded) \<Rightarrow> server \<Rightarrow> inbound list \<Rightarrow> run_exit \<times> server" where
  "run loads srv [] = (Finished, srv)"
| "run loads srv (Undecodable t # ls) = (Exited (Exc ValueError t), srv)"
| "run loads srv (Text l # ls) =
     (if py_strip l = [] then run loads srv ls
      else
        (case loads (py_strip l) of
           JSONDecodeError \<Rightarrow>
             run loads
               (write_message srv (create_error_response JNull PARSE_ERROR ''Parse error'' None))
               ls
         | Raises e \<Rightarrow> (Exited e, srv)
         | Value request \<Rightarrow>
             (case handle_request srv request of
                (Inl (Fault e), srv') \<Rightarrow> (Exited e, srv')
              | (Inl (Exit x t), srv') \<Rightarrow>
                  (if x = KeyboardInterrupt then (Interrupted, srv') else (Escaped x t, srv'))
              | (Inr None, srv') \<Rightarrow> run loads srv' ls
              | (Inr (Some response), srv') \<Rightarrow> run loads (write_message srv' response) ls)))"



section \<open>The client: \<^verbatim>\<open>mcp_client.py\<close>\<close>

text \<open>
  The client is used by several threads: the callers, inside \<^verbatim>\<open>_send_request\<close>, and the
  reader thread, inside \<^verbatim>\<open>_read_loop\<close>. The state they share is a record, and each thread
  acts on it in steps; the client holds no lock, so the steps of different threads
  interleave. The first half of \<^verbatim>\<open>_send_request\<close>, up to the blocking
  \<^verbatim>\<open>response_queue.get\<close>, is a sequence of steps, one for each statement that touches
  the shared state. The second half, from the moment the blocking call ends (an item
  has arrived, or the timeout has elapsed on an empty queue) to the return, is one
  step. The reader's step is one \<^verbatim>\<open>_handle_message\<close>.

  A \<^verbatim>\<open>Queue\<close> is an object on the heap: \<^verbatim>\<open>queues\<close> maps a reference to the items the
  queue holds, \<^verbatim>\<open>queue_count\<close> is the next unused reference, and the table
  \<^verbatim>\<open>pending_requests\<close> holds references. A caller keeps the reference to its own queue
  in a local variable. \<^verbatim>\<open>connected\<close> says that \<^verbatim>\<open>self.process\<close> and its pipes exist;
  \<^verbatim>\<open>stdin_error\<close> is the condition of the pipe, \<^verbatim>\<open>Some e\<close> when a write to it raises
  \<^verbatim>\<open>e\<close>; \<^verbatim>\<open>wire\<close> is the sequence of messages written to it. Exceptions that only
  reach the log are kept by their class.
\<close>

record client =
  connected :: bool
  stdin_error :: "py_exception option"
  next_id :: int
  pending_requests :: "int \<rightharpoonup> nat"
  queues :: "nat \<Rightarrow> json list"
  queue_count :: nat
  running :: bool
  wire :: "json list"
  server_info :: "json option"
  server_capabilities :: "json option"

definition new_client :: client where
  "new_client =
     \<lparr> connected = False, stdin_error = None, next_id = 1,
       pending_requests = Map.empty, queues = (\<lambda>q. []), queue_count = 0,
       running = False, wire = [], server_info = None, server_capabilities = None \<rparr>"

text \<open>
  What \<^verbatim>\<open>_send_request\<close> raises: \<^verbatim>\<open>RuntimeError("Client not connected")\<close>,
  \<^verbatim>\<open>RuntimeError("Failed to send request: ...")\<close> with the text of the cause,
  \<^verbatim>\<open>TimeoutError\<close>, \<^verbatim>\<open>RuntimeError("Server error: ... (code: ...)")\<close> with the two
  values it formats, or an exception it does not catch.
\<close>

datatype client_error =
    NotConnected
  | SendFailed string
  | RequestTimeout
  | ServerError json json
  | Raised exc_class

text \<open>\<^verbatim>\<open>k in v\<close> and \<^verbatim>\<open>v[k]\<close> for a string \<^verbatim>\<open>k\<close>.\<close>

fun py_contains :: "string \<Rightarrow> json \<Rightarrow> exc_class + bool" where
  "py_contains k (JObj kvs) = Inr (k \<in> set (map fst kvs))"
| "py_contains k (JArr xs) = Inr (JStr k \<in> set xs)"
| "py_contains k (JStr s) = Inr (sublist k s)"
| "py_contains k JNull = Inl TypeError"
| "py_contains k (JBool b) = Inl TypeError"
| "py_contains k (JNum n) = Inl TypeError"

fun py_index :: "json \<Rightarrow> string \<Rightarrow> exc_class + json" where
  "py_index (JObj kvs) k = (case map_of kvs k of None \<Rightarrow> Inl KeyError | Some v \<Rightarrow> Inr v)"
| "py_index (JArr xs) k = Inl TypeError"
| "py_index (JStr s) k = Inl TypeError"
| "py_index JNull k = Inl TypeError"
| "py_index (JBool b) k = Inl TypeError"
| "py_index (JNum n) k = Inl TypeError"

text \<open>
  Lookup of a key in a dict whose keys are integers: \<^verbatim>\<open>True\<close> and \<^verbatim>\<open>False\<close> are equal
  to 1 and 0 and hash alike.
\<close>

fun lookup_int :: "key \<Rightarrow> (int \<rightharpoonup> 'a) \<Rightarrow> 'a option" where
  "lookup_int (KInt n) d = d n"
| "lookup_int (KBool b) d = d (if b then 1 else 0)"
| "lookup_int KNone d = None"
| "lookup_int (KStr s) d = None"

definition make_request :: "int \<Rightarrow> string \<Rightarrow> json option \<Rightarrow> json" where
  "make_request request_id method params =
     JObj ([(''jsonrpc'', JStr ''2.0''), (''id'', JNum request_id), (''method'', JStr method)] @
           (case params of None \<Rightarrow> [] | Some p \<Rightarrow> [(''params'', p)]))"

definition make_notification :: "string \<Rightarrow> json option \<Rightarrow> json" where
  "make_notification method params =
     JObj ([(''jsonrpc'', JStr ''2.0''), (''method'', JStr method)] @
           (case params of None \<Rightarrow> [] | Some p \<Rightarrow> [(''params'', p)]))"

text \<open>
  The steps of the first half of \<^verbatim>\<open>_send_request\<close>, one for each statement on the
  shared state: \<^verbatim>\<open>request_id = self.next_id\<close>; \<^verbatim>\<open>self.next_id += 1\<close>; \<^verbatim>\<open>Queue()\<close>;
  \<^verbatim>\<open>self.pending_requests[request_id] = response_queue\<close>; and the \<^verbatim>\<open>try\<close> statement
  that writes the request, whose handler deletes the entry (a \<^verbatim>\<open>KeyError\<close> if there is
  none) and raises \<^verbatim>\<open>RuntimeError\<close>.
\<close>

definition read_next_id :: "client \<Rightarrow> int" where
  "read_next_id c = next_id c"

definition increment_next_id :: "client \<Rightarrow> client" where
  "increment_next_id c = c\<lparr> next_id := next_id c + 1 \<rparr>"

definition new_queue :: "client \<Rightarrow> nat \<times> client" where
  "new_queue c =
     (queue_count c,
      c\<lparr> queue_count := queue_count c + 1, queues := (queues c)(queue_count c := []) \<rparr>)"

definition register_request :: "client \<Rightarrow> int \<Rightarrow> nat \<Rightarrow> client" where
  "register_request c request_id response_queue =
     c\<lparr> pending_requests := (pending_requests c)(request_id \<mapsto> response_queue) \<rparr>"

definition write_request ::
  "client \<Rightarrow> int \<Rightarrow> string \<Rightarrow> json option \<Rightarrow> (client_error + unit) \<times> client" where
  "write_request c request_id method params =
     (case stdin_error c of
        Some e \<Rightarrow>
          (if request_id \<in> dom (pending_requests c)
           then (Inl (SendFailed (exc_str e)),
                 c\<lparr> pending_requests := (pending_requests c)(request_id := None) \<rparr>)
           else (Inl (Raised KeyError), c))
      | None \<Rightarrow> (Inr (), c\<lparr> wire := wire c @ [make_request request_id method params] \<rparr>))"

text \<open>
  The first half of \<^verbatim>\<open>_send_request\<close> when no other thread takes a step inside it: the
  steps in program order. It returns the identifier and the reference of the queue,
  the two locals the second half uses.
\<close>

definition send_request_begin ::
  "client \<Rightarrow> string \<Rightarrow> json option \<Rightarrow> (client_error + int \<times> nat) \<times> client" where
  "send_request_begin c method params =
     (if \<not> connected c then (Inl NotConnected, c)
      else
        (let request_id = read_next_id c;
             c1 = increment_next_id c;
             response_queue = fst (new_queue c1);
             c2 = snd (new_queue c1);
             c3 = register_request c2 request_id response_queue
         in case write_request c3 request_id method params of
              (Inl x, c4) \<Rightarrow> (Inl x, c4)
            | (Inr u, c4) \<Rightarrow> (Inr (request_id, response_queue), c4)))"

text \<open>What the caller makes of the response it has taken from its queue.\<close>

definition response_outcome :: "json \<Rightarrow> client_error + json" where
  "response_outcome response =
     (case py_contains ''error'' response of
        Inl x \<Rightarrow> Inl (Raised x)
      | Inr True \<Rightarrow>
          (case py_index response ''error'' of
             Inl x \<Rightarrow> Inl (Raised x)
           | Inr error \<Rightarrow>
               (case py_get error ''message'' JNull of
                  Inl e \<Rightarrow> Inl (Raised (exc_class e))
                | Inr message \<Rightarrow>
                    (case py_get error ''code'' JNull of
                       Inl e \<Rightarrow> Inl (Raised (exc_class e))
                     | Inr code \<Rightarrow> Inl (ServerError message code))))
      | Inr False \<Rightarrow>
          (case py_get response ''result'' (JObj []) of
             Inl e \<Rightarrow> Inl (Raised (exc_class e))
           | Inr result \<Rightarrow> Inr result))"

text \<open>
  \<^verbatim>\<open>_send_request\<close> from the end of the blocking call. An empty queue is the timeout:
  \<^verbatim>\<open>get\<close> raises \<^verbatim>\<open>Empty\<close>; the handler deletes the entry, which raises \<^verbatim>\<open>KeyError\<close> when
  there is none. Otherwise the first item is taken, and the \<^verbatim>\<open>finally\<close> clause deletes
  the entry if there is one.
\<close>

definition send_request_end :: "client \<Rightarrow> int \<times> nat \<Rightarrow> (client_error + json) \<times> client" where
  "send_request_end c h =
     (case h of (request_id, response_queue) \<Rightarrow>
        (case queues c response_queue of
           [] \<Rightarrow>
             (if request_id \<in> dom (pending_requests c)
              then (Inl RequestTimeout,
                    c\<lparr> pending_requests := (pending_requests c)(request_id := None) \<rparr>)
              else (Inl (Raised KeyError), c))
         | response # rest \<Rightarrow>
             (response_outcome response,
              c\<lparr> queues := (queues c)(response_queue := rest),
                 pending_requests := (pending_requests c)(request_id := None) \<rparr>)))"

definition send_notification ::
  "client \<Rightarrow> string \<Rightarrow> json option \<Rightarrow> (client_error + unit) \<times> client" where
  "send_notification c method params =
     (if \<not> connected c then (Inl NotConnected, c)
      else
        (case stdin_error c of
           Some e \<Rightarrow> (Inl (Raised (exc_class e)), c)
         | None \<Rightarrow> (Inr (), c\<lparr> wire := wire c @ [make_notification method params] \<rparr>)))"

text \<open>
  \<^verbatim>\<open>_handle_message\<close>, the reader's step: the exception it may raise is caught by the
  loop.
\<close>

definition pending_queue :: "client \<Rightarrow> json \<Rightarrow> exc_class + nat option" where
  "pending_queue c message =
     (case py_index message ''id'' of
        Inl x \<Rightarrow> Inl x
      | Inr v \<Rightarrow>
          (case hash_key v of
             Inl e \<Rightarrow> Inl (exc_class e)
           | Inr k \<Rightarrow> Inr (lookup_int k (pending_requests c))))"

definition handle_message :: "client \<Rightarrow> json \<Rightarrow> (exc_class + unit) \<times> client" where
  "handle_message c message =
     (case py_contains ''id'' message of
        Inl x \<Rightarrow> (Inl x, c)
      | Inr has_id \<Rightarrow>
          (case (if has_id then pending_queue c message else Inr None) of
             Inl x \<Rightarrow> (Inl x, c)
           | Inr (Some queue) \<Rightarrow>
               (Inr (), c\<lparr> queues := (queues c)(queue := queues c queue @ [message]) \<rparr>)
           | Inr None \<Rightarrow>
               (case py_contains ''method'' message of
                  Inl x \<Rightarrow> (Inl x, c)
                | Inr has_method \<Rightarrow>
                    (if has_method \<and> \<not> has_id then
                       (case py_get message ''method'' JNull of
                          Inl e \<Rightarrow> (Inl (exc_class e), c)
                        | Inr method \<Rightarrow>
                            (case py_get message ''params'' (JObj []) of
                               Inl e \<Rightarrow> (Inl (exc_class e), c)
                             | Inr params \<Rightarrow> (Inr (), c)))
                     else (Inr (), c)))))"

text \<open>
  \<^verbatim>\<open>_read_loop\<close> over what the server's standard output delivers until it is closed,
  with the items of the stream and \<^verbatim>\<open>loads\<close> as for the server. The two \<^verbatim>\<open>except\<close>
  clauses inside the loop log and go on, whatever \<^verbatim>\<open>json.loads\<close> or \<^verbatim>\<open>_handle_message\<close>
  raised. Bytes that cannot be decoded raise at the \<^verbatim>\<open>for\<close> statement, outside them:
  the outer clause logs and the loop is over.
\<close>

fun read_lines :: "(string \<Rightarrow> decoded) \<Rightarrow> client \<Rightarrow> inbound list \<Rightarrow> client" where
  "read_lines loads c [] = c"
| "read_lines loads c (Undecodable t # ls) = c"
| "read_lines loads c (Text l # ls) =
     (if \<not> running c then c
      else if py_strip l = [] then read_lines loads c ls
      else
        (case loads (py_strip l) of
           JSONDecodeError \<Rightarrow> read_lines loads c ls
         | Raises e \<Rightarrow> read_lines loads c ls
         | Value message \<Rightarrow> read_lines loads (snd (handle_message c message)) ls))"

definition read_loop :: "(string \<Rightarrow> decoded) \<Rightarrow> client \<Rightarrow> inbound list \<Rightarrow> client" where
  "read_loop loads c items = (if \<not> connected c then c else read_lines loads c items)"

text \<open>
  \<^verbatim>\<open>start\<close> creates the process and the reader thread, then runs \<^verbatim>\<open>_initialize\<close>, a
  \<^verbatim>\<open>_send_request\<close> in its two halves followed by the notification. \<^verbatim>\<open>stop\<close> clears
  \<^verbatim>\<open>running\<close> and, if there is a process, terminates it and waits for its end: the
  streams are closed and a later write to the pipe raises \<^verbatim>\<open>BrokenPipeError\<close>, while
  \<^verbatim>\<open>self.process\<close> stays set.
\<close>

definition spawn :: "client \<Rightarrow> client" where
  "spawn c = c\<lparr> connected := True, running := True \<rparr>"

definition initialize_params :: json where
  "initialize_params =
     JObj [(''protocolVersion'', JStr ''2024-11-05''),
           (''capabilities'',
              JObj [(''roots'', JObj [(''listChanged'', JBool True)]), (''sampling'', JObj [])]),
           (''clientInfo'',
              JObj [(''name'', JStr ''mcp-python-client''), (''version'', JStr ''1.0.0'')])]"

definition initialize_begin :: "client \<Rightarrow> (client_error + int \<times> nat) \<times> client" where
  "initialize_begin c = send_request_begin c ''initialize'' (Some initialize_params)"

definition initialize_end :: "client \<Rightarrow> int \<times> nat \<Rightarrow> (client_error + unit) \<times> client" where
  "initialize_end c h =
     (case send_request_end c h of
        (Inl x, c1) \<Rightarrow> (Inl x, c1)
      | (Inr result, c1) \<Rightarrow>
          (case py_get result ''serverInfo'' (JObj []) of
             Inl e \<Rightarrow> (Inl (Raised (exc_class e)), c1)
           | Inr info \<Rightarrow>
               (case py_get result ''capabilities'' (JObj []) of
                  Inl e \<Rightarrow> (Inl (Raised (exc_class e)), c1\<lparr> server_info := Some info \<rparr>)
                | Inr caps \<Rightarrow>
                    (case py_get info ''name'' JNull of
                       Inl e \<Rightarrow>
                         (Inl (Raised (exc_class e)),
                          c1\<lparr> server_info := Some info, server_capabilities := Some caps \<rparr>)
                     | Inr nm \<Rightarrow>
                         send_notification
                           (c1\<lparr> server_info := Some info, server_capabilities := Some caps \<rparr>)
                           ''notifications/initialized'' None))))"

definition broken_pipe :: py_exception where
  "broken_pipe = Exc BrokenPipeError (''[Errno 32] Broken pipe'')"

definition stop :: "client \<Rightarrow> client" where
  "stop c =
     c\<lparr> running := False,
        stdin_error := (if connected c then Some broken_pipe else stdin_error c) \<rparr>"

definition list_tools_begin :: "client \<Rightarrow> (client_error + int \<times> nat) \<times> client" where
  "list_tools_begin c = send_request_begin c ''tools/list'' None"



section \<open>States and streams of the worked examples\<close>

text \<open>
  A server with one tool and one resource whose callbacks raise a fault, and a server
  with a tool that raises \<^verbatim>\<open>SystemExit\<close>; a client that has created its process and has
  one call in flight, with two replies to that call; two callers that both execute
  \<^verbatim>\<open>request_id = self.next_id\<close> before either executes \<^verbatim>\<open>self.next_id += 1\<close>, and go on
  one after the other; and input lines with a decoder that behaves on them as
  \<^verbatim>\<open>json.loads\<close> does: it decodes two of them, raises \<^verbatim>\<open>RecursionError\<close> on a thousand
  opening brackets, and raises \<^verbatim>\<open>JSONDecodeError\<close> on the others.
\<close>

definition faulty_server :: server where
  "faulty_server =
     register_resource
       (register_tool (new_server ''example-server'' ''1.0.0'')
          ''boom'' ''a tool that fails'' (JObj [(''type'', JStr ''object'')])
          (\<lambda>args. Inl (Fault (Exc OtherException ''division by zero''))))
       ''file:///broken'' ''broken'' ''a resource that fails'' ''text/plain''
       (Inl (Fault (Exc OtherException ''disk failure'')))"

definition exiting_server :: server where
  "exiting_server =
     register_tool (new_server ''example-server'' ''1.0.0'')
       ''quit'' ''a tool that exits'' (JObj [(''type'', JStr ''object'')])
       (\<lambda>args. Inl (Exit SystemExit ''1''))"

definition in_flight :: client where
  "in_flight = snd (list_tools_begin (spawn new_client))"

definition reply_x :: json where
  "reply_x = JObj [(''jsonrpc'', JStr ''2.0''), (''id'', JNum 1), (''result'', JStr ''x'')]"

definition reply_y :: json where
  "reply_y = JObj [(''jsonrpc'', JStr ''2.0''), (''id'', JNum 1), (''result'', JStr ''y'')]"











definition dq :: string where
  "dq = [CHR 0x22]"

definition reply_line :: string where
  "reply_line = ''{'' @ dq @ ''jsonrpc'' @ dq @ '': '' @ dq @ ''2.0'' @ dq @ '', '' @
                dq @ ''id'' @ dq @ '': 1, '' @ dq @ ''result'' @ dq @ '': {}}''"

definition request_line :: string where
  "request_line = ''{'' @ dq @ ''jsonrpc'' @ dq @ '': '' @ dq @ ''2.0'' @ dq @ '', '' @
                  dq @ ''id'' @ dq @ '': 1, '' @ dq @ ''method'' @ dq @ '': '' @
                  dq @ ''tools/list'' @ dq @ ''}''"

definition garbage_line :: string where
  "garbage_line = ''{not json'' @ [CHR 0x0A]"

definition deep_line :: string where
  "deep_line = replicate 1000 (CHR 0x5B)"

definition recursion_error :: py_exception where
  "recursion_error =
     Exc RecursionError
       ''maximum recursion depth exceeded while decoding a JSON array from a unicode string''"

definition undecodable_bytes :: inbound where
  "undecodable_bytes =
     Undecodable (sq @ ''utf-8'' @ sq @ '' codec can'' @ sq @
                  ''t decode byte 0xff in position 0: invalid start byte'')"

definition sample_loads :: "string \<Rightarrow> decoded" where
  "sample_loads s =
     (if s = deep_line then Raises recursion_error
      else if s = reply_line
        then Value (JObj [(''jsonrpc'', JStr ''2.0''), (''id'', JNum 1), (''result'', JObj [])])
      else if s = request_line
        then Value (JObj [(''jsonrpc'', JStr ''2.0''), (''id'', JNum 1),
                          (''method'', JStr ''tools/list'')])
      else JSONDecodeError)"


section \<open>Auxiliary facts\<close>

lemma sublist_after_prefix: "sublist m (p @ m)"
  by (rule suffix_imp_sublist) (rule suffixI, rule refl)

lemma methods_registered:
  "methods m = Some handler \<Longrightarrow> m \<noteq> ''notifications/initialized''"
  by (auto simp add: methods_def)

lemma methods_tools_call: "methods ''tools/call'' = Some handle_tools_call"
  by (simp add: methods_def)

lemma tools_call_fault:
  assumes "map_of ps ''name'' = Some (JStr nm)"
    and "tool_handlers srv nm = Some handler"
    and "handler (case map_of ps ''arguments'' of None \<Rightarrow> JObj [] | Some a \<Rightarrow> a) =
           Inl (Fault e)"
  shows "handle_tools_call srv (JObj ps) =
           (Inr (tool_content (''Error: '' @ exc_str e) True),
            srv\<lparr> calls := calls srv @ [ToolCall nm] \<rparr>)"
  using assms by (simp add: handle_tools_call_def)

lemma tools_call_unknown:
  assumes "hash_key (case map_of ps ''name'' of None \<Rightarrow> JNull | Some v \<Rightarrow> v) = Inr k"
    and "lookup_str k (tool_handlers srv) = None"
  shows "handle_tools_call srv (JObj ps) =
           (Inl (Fault (Exc ValueError (''Tool not found: '' @ key_str k))), srv)"
  using assms by (simp add: handle_tools_call_def)

lemma faulty_server_calls: "calls faulty_server = []"
  by (simp add: faulty_server_def register_resource_def register_tool_def new_server_def)

lemma response_outcome_result:
  assumes "map_of kvs ''error'' = None" and "map_of kvs ''result'' = Some r"
  shows "response_outcome (JObj kvs) = Inr r"
  using assms by (simp add: response_outcome_def map_of_eq_None_iff)

lemma handle_message_reply:
  assumes "map_of kvs ''id'' = Some (JNum i)" and "pending_requests c i = Some q"
  shows "handle_message c (JObj kvs) =
           (Inr (), c\<lparr> queues := (queues c)(q := queues c q @ [JObj kvs]) \<rparr>)"
proof -
  have "''id'' \<in> fst ` set kvs"
    using assms(1) by (metis map_of_eq_None_iff option.distinct(1))
  then show ?thesis
    using assms by (simp add: handle_message_def pending_queue_def)
qed

lemma handle_message_unknown_id:
  assumes "map_of kvs ''id'' = Some (JNum i)" and "pending_requests c i = None"
  shows "handle_message c (JObj kvs) = (Inr (), c)"
proof -
  have "''id'' \<in> fst ` set kvs"
    using assms(1) by (metis map_of_eq_None_iff option.distinct(1))
  then show ?thesis
    using assms by (simp add: handle_message_def pending_queue_def)
qed

lemmas send_steps =
  read_next_id_def increment_next_id_def new_queue_def register_request_def write_request_def


lemma send_request_end_removes:
  "pending_requests (snd (send_request_end c (i, q))) i = None"
  by (auto simp add: send_request_end_def split: list.splits)


lemma send_request_end_timeout:
  assumes "pending_requests c i = Some q" and "queues c q = []"
  shows "send_request_end c (i, q) =
           (Inl RequestTimeout, c\<lparr> pending_requests := (pending_requests c)(i := None) \<rparr>)"
  using assms by (auto simp add: send_request_end_def)

lemma read_lines_stopped: "\<not> running c \<Longrightarrow> read_lines loads c ls = c"
proof (cases ls)
  case Nil
  then show ?thesis by simp
next
  case (Cons x xs)
  assume "\<not> running c"
  with Cons show ?thesis by (cases x) simp_all
qed

lemma in_flight_eq:
  "in_flight =
     new_client\<lparr> connected := True, running := True, next_id := 2, queue_count := 1,
       pending_requests := [1 \<mapsto> 0],
       wire := [JObj [(''jsonrpc'', JStr ''2.0''), (''id'', JNum 1),
                      (''method'', JStr ''tools/list'')]] \<rparr>"
  by (simp add: in_flight_def list_tools_begin_def send_request_begin_def send_steps spawn_def
        new_client_def make_request_def Let_def)
    (rule ext, simp)

lemma in_flight_slot: "pending_requests in_flight 1 = Some 0" "queues in_flight 0 = []"
  by (simp_all add: in_flight_eq new_client_def)

lemma dropWhile_unspaced: "xs \<noteq> [] \<Longrightarrow> \<not> P (hd xs) \<Longrightarrow> dropWhile P xs = xs"
  by (cases xs) simp_all

lemma py_strip_unspaced:
  assumes "s \<noteq> []" and "\<not> py_space (hd s)" and "\<not> py_space (last s)"
  shows "py_strip s = s"
proof -
  have 1: "dropWhile py_space s = s"
    using assms(1,2) by (rule dropWhile_unspaced)
  have "rev s \<noteq> []" and "\<not> py_space (hd (rev s))"
    using assms(1,3) by (simp_all add: hd_rev)
  then have 2: "dropWhile py_space (rev s) = rev s"
    by (rule dropWhile_unspaced)
  show ?thesis
    by (simp add: py_strip_def 1 2)
qed

lemma deep_line_ends: "deep_line \<noteq> []" "hd deep_line = CHR 0x5B" "last deep_line = CHR 0x5B"
  by (simp_all add: deep_line_def)

lemma strip_deep: "py_strip deep_line = deep_line"
  by (rule py_strip_unspaced) (simp_all add: deep_line_ends py_space_def)

lemma not_deep: "hd s \<noteq> CHR 0x5B \<Longrightarrow> s \<noteq> deep_line"
  using deep_line_ends(2) by auto

lemma strip_garbage: "py_strip garbage_line = ''{not json''"
  by (simp add: py_strip_def py_space_def garbage_line_def)

lemma strip_reply: "py_strip (reply_line @ [CHR 0x0A]) = reply_line"
  by (simp add: py_strip_def py_space_def reply_line_def dq_def)

lemma strip_request: "py_strip (request_line @ [CHR 0x0A]) = request_line"
  by (simp add: py_strip_def py_space_def request_line_def dq_def)

lemma lines_nonempty: "reply_line \<noteq> []" "request_line \<noteq> []"
  by (simp_all add: reply_line_def request_line_def)

lemma lines_not_deep: "reply_line \<noteq> deep_line" "request_line \<noteq> deep_line"
  by (rule not_deep, simp add: reply_line_def request_line_def)+

lemma loads_garbage: "sample_loads (py_strip garbage_line) = JSONDecodeError"
proof -
  have "''{not json'' \<noteq> deep_line"
    by (rule not_deep) simp
  then show ?thesis
    by (simp add: strip_garbage sample_loads_def reply_line_def request_line_def dq_def)
qed

lemma loads_deep: "sample_loads (py_strip deep_line) = Raises recursion_error"
  by (simp add: strip_deep sample_loads_def)

lemma loads_reply:
  "sample_loads reply_line =
     Value (JObj [(''jsonrpc'', JStr ''2.0''), (''id'', JNum 1), (''result'', JObj [])])"
  by (simp add: sample_loads_def lines_not_deep)

lemma loads_request:
  "sample_loads request_line =
     Value (JObj [(''jsonrpc'', JStr ''2.0''), (''id'', JNum 1), (''method'', JStr ''tools/list'')])"
proof -
  have "request_line \<noteq> reply_line"
    by (simp add: reply_line_def request_line_def dq_def)
  then show ?thesis
    by (simp add: sample_loads_def lines_not_deep)
qed



section \<open>Correlation of calls and replies\<close>








section \<open>Closure of the inbound stream and the state of the session\<close>

text \<open>
  C3, as stated, fails. One call is in flight and the server's output is closed before
  any line arrives: the reader loop returns with the client state as it was, the
  caller's queue is still empty after \<^verbatim>\<open>stop\<close>, its entry is still in the table, and the
  call completes with the timeout error of its own deadline.
\<close>

theorem closure_does_not_fail_pending:
  "pending_requests in_flight 1 = Some 0
   \<and> read_loop sample_loads in_flight [] = in_flight
   \<and> queues (stop (read_loop sample_loads in_flight [])) 0 = []
   \<and> pending_requests (stop (read_loop sample_loads in_flight [])) 1 = Some 0
   \<and> fst (send_request_end (stop (read_loop sample_loads in_flight [])) (1, 0)) =
       Inl RequestTimeout"
  by (simp add: in_flight_eq read_loop_def stop_def send_request_end_def new_client_def)

text \<open>
  C3, amended. When the inbound stream is closed the reader loop ends and leaves the
  client state as it is; once \<^verbatim>\<open>stop\<close> has cleared \<^verbatim>\<open>running\<close> the loop handles no
  further line; \<^verbatim>\<open>stop\<close> changes neither the table nor any queue. A call in flight
  whose reply has not arrived therefore completes through its own timeout, with the
  timeout error.
\<close>

theorem closure_leaves_pending:
  assumes "pending_requests c i = Some q" and "queues c q = []"
  shows "read_loop loads c [] = c
       \<and> read_loop loads (stop c) ls = stop c
       \<and> pending_requests (stop c) = pending_requests c
       \<and> queues (stop c) = queues c
       \<and> fst (send_request_end (stop (read_loop loads c [])) (i, q)) = Inl RequestTimeout"
proof -
  have 1: "read_loop loads c [] = c"
    by (simp add: read_loop_def)
  have 2: "read_loop loads (stop c) ls = stop c"
    by (simp add: read_loop_def read_lines_stopped stop_def)
  have 3: "pending_requests (stop c) = pending_requests c" and 4: "queues (stop c) = queues c"
    by (simp_all add: stop_def)
  have 5: "fst (send_request_end (stop (read_loop loads c [])) (i, q)) = Inl RequestTimeout"
    using send_request_end_timeout[of "stop c" i q] assms by (simp add: 1 3 4)
  from 1 2 3 4 5 show ?thesis by blast
qed

theorem closure_leaves_pending_witness:
  "pending_requests in_flight 1 = Some 0 \<and> queues in_flight 0 = []
   \<and> read_loop sample_loads (stop in_flight) [Text (reply_line @ [CHR 0x0A])] = stop in_flight
   \<and> fst (send_request_end (stop (read_loop sample_loads in_flight [])) (1, 0)) =
       Inl RequestTimeout"
  using closure_leaves_pending[OF in_flight_slot, where loads = sample_loads
          and ls = "[Text (reply_line @ [CHR 0x0A])]"] in_flight_slot
  by (elim conjE) (intro conjI, assumption+)

text \<open>
  C4, as stated, fails. The process has been created and nothing of the handshake has
  happened: no server information is stored and nothing has been written, not even
  \<^verbatim>\<open>initialize\<close>. A \<^verbatim>\<open>list_tools\<close> call is accepted and its request is written to the
  outbound stream.
\<close>

theorem call_before_handshake_is_sent:
  "server_info (spawn new_client) = None \<and> wire (spawn new_client) = []
   \<and> fst (list_tools_begin (spawn new_client)) = Inr (1, 0)
   \<and> wire (snd (list_tools_begin (spawn new_client))) =
       [JObj [(''jsonrpc'', JStr ''2.0''), (''id'', JNum 1), (''method'', JStr ''tools/list'')]]"
  by (simp add: list_tools_begin_def send_request_begin_def send_steps spawn_def new_client_def
        make_request_def Let_def)

text \<open>
  C4, amended. A call issued while the client has no server process is rejected with
  the error "Client not connected": nothing is written and the state does not change.
  When the process exists the handshake plays no part, in any state of the client. If
  the write to the pipe succeeds, the call is given the next identifier and its request
  is written. If the write raises, the call is rejected with the error "Failed to send
  request" carrying the text of the cause, and nothing is written; this is the case of
  every call after \<^verbatim>\<open>stop\<close>, whose pipe is broken.
\<close>

theorem call_without_process_rejected:
  "(\<not> connected c \<longrightarrow> send_request_begin c m p = (Inl NotConnected, c))
   \<and> (connected c \<and> stdin_error c = None \<longrightarrow>
        fst (send_request_begin c m p) = Inr (next_id c, queue_count c)
        \<and> wire (snd (send_request_begin c m p)) = wire c @ [make_request (next_id c) m p])
   \<and> (connected c \<and> stdin_error c = Some e \<longrightarrow>
        fst (send_request_begin c m p) = Inl (SendFailed (exc_str e))
        \<and> wire (snd (send_request_begin c m p)) = wire c)
   \<and> (connected c \<longrightarrow>
        fst (send_request_begin (stop c) m p) = Inl (SendFailed ''[Errno 32] Broken pipe'')
        \<and> wire (snd (send_request_begin (stop c) m p)) = wire c)"
  by (simp add: send_request_begin_def send_steps stop_def broken_pipe_def Let_def)

theorem call_without_process_rejected_witness:
  "\<not> connected new_client
   \<and> send_request_begin new_client ''tools/list'' None = (Inl NotConnected, new_client)
   \<and> connected (spawn new_client) \<and> stdin_error (spawn new_client) = None
   \<and> wire (snd (send_request_begin (spawn new_client) ''tools/list'' None)) =
       [JObj [(''jsonrpc'', JStr ''2.0''), (''id'', JNum 1), (''method'', JStr ''tools/list'')]]
   \<and> stdin_error (stop (spawn new_client)) = Some broken_pipe
   \<and> fst (send_request_begin (stop (spawn new_client)) ''tools/list'' None) =
       Inl (SendFailed ''[Errno 32] Broken pipe'')
   \<and> wire (snd (send_request_begin (stop (spawn new_client)) ''tools/list'' None)) = []"
  using call_without_process_rejected[of new_client "''tools/list''" None]
    call_without_process_rejected[of "spawn new_client" "''tools/list''" None]
    call_without_process_rejected[of "stop (spawn new_client)" "''tools/list''" None broken_pipe]
  by (simp add: new_client_def spawn_def stop_def make_request_def broken_pipe_def)


section \<open>The router's replies\<close>

text \<open>
  C5, as stated, fails. \<^verbatim>\<open>notifications/initialized\<close> is not a key of \<^verbatim>\<open>self.methods\<close>,
  and a request that carries an identifier and names it gets no reply at all.
\<close>

theorem initialized_request_unanswered:
  "methods ''notifications/initialized'' = None
   \<and> handle_request (new_server ''example-server'' ''1.0.0'')
       (JObj [(''jsonrpc'', JStr ''2.0''), (''id'', JNum 1),
              (''method'', JStr ''notifications/initialized'')])
     = (Inr None, new_server ''example-server'' ''1.0.0'')"
  by (simp add: methods_def handle_request_def)

text \<open>
  C5, amended. A message names a method that is not registered. If the name is
  \<^verbatim>\<open>notifications/initialized\<close>, there is no reply and the server state is unchanged,
  whether the message carries an identifier or not. For every other name, if the
  message carries an identifier other than null, the reply is an error with code
  -32601 whose message is "Method not found: " followed by the name; the server state,
  with its record of invocations, is unchanged, so no handler is invoked.
\<close>

theorem unknown_method_reply:
  assumes "request = JObj kvs"
    and "map_of kvs ''method'' = Some (JStr m)"
    and "methods m = None"
  shows "(m = ''notifications/initialized'' \<longrightarrow> handle_request srv request = (Inr None, srv))
       \<and> (m \<noteq> ''notifications/initialized''
            \<and> map_of kvs ''id'' = Some request_id \<and> request_id \<noteq> JNull \<longrightarrow>
            handle_request srv request =
              (Inr (Some (JObj [(''jsonrpc'', JStr ''2.0''), (''id'', request_id),
                        (''error'', JObj [(''code'', JNum (- 32601)),
                                          (''message'', JStr (''Method not found: '' @ m)),
                                          (''data'', JObj [(''method'', JStr m)])])])), srv)
            \<and> sublist m (''Method not found: '' @ m)
            \<and> calls (snd (handle_request srv request)) = calls srv)"
proof -
  have 0: "m = ''notifications/initialized'' \<longrightarrow> handle_request srv request = (Inr None, srv)"
    using assms(1,2) by (simp add: handle_request_def)
  have 1: "m \<noteq> ''notifications/initialized''
            \<and> map_of kvs ''id'' = Some request_id \<and> request_id \<noteq> JNull \<longrightarrow>
           handle_request srv request =
           (Inr (Some (JObj [(''jsonrpc'', JStr ''2.0''), (''id'', request_id),
                             (''error'', JObj [(''code'', JNum (- 32601)),
                                               (''message'', JStr (''Method not found: '' @ m)),
                                               (''data'', JObj [(''method'', JStr m)])])])), srv)"
    using assms by (simp add: handle_request_def create_error_response_def)
  have 2: "sublist m (''Method not found: '' @ m)"
    by (rule sublist_after_prefix)
  from 0 1 2 show ?thesis by auto
qed

theorem unknown_method_reply_witness:
  "handle_request (new_server ''example-server'' ''1.0.0'')
     (JObj [(''jsonrpc'', JStr ''2.0''), (''id'', JNum 7), (''method'', JStr ''ghost'')]) =
   (Inr (Some (JObj [(''jsonrpc'', JStr ''2.0''), (''id'', JNum 7),
                     (''error'', JObj [(''code'', JNum (- 32601)),
                                       (''message'', JStr ''Method not found: ghost''),
                                       (''data'', JObj [(''method'', JStr ''ghost'')])])])),
    new_server ''example-server'' ''1.0.0'')
   \<and> handle_request faulty_server
       (JObj [(''jsonrpc'', JStr ''2.0''), (''method'', JStr ''notifications/initialized'')]) =
     (Inr None, faulty_server)
   \<and> handle_request faulty_server
       (JObj [(''jsonrpc'', JStr ''2.0''), (''id'', JStr ''abc''),
              (''method'', JStr ''notifications/initialized'')]) =
     (Inr None, faulty_server)"
  using unknown_method_reply
    [where request = "JObj [(''jsonrpc'', JStr ''2.0''), (''id'', JNum 7), (''method'', JStr ''ghost'')]"
       and kvs = "[(''jsonrpc'', JStr ''2.0''), (''id'', JNum 7), (''method'', JStr ''ghost'')]"
       and request_id = "JNum 7" and m = "''ghost''"
       and srv = "new_server ''example-server'' ''1.0.0''"]
    unknown_method_reply
    [where request = "JObj [(''jsonrpc'', JStr ''2.0''),
                            (''method'', JStr ''notifications/initialized'')]"
       and kvs = "[(''jsonrpc'', JStr ''2.0''), (''method'', JStr ''notifications/initialized'')]"
       and m = "''notifications/initialized''" and srv = faulty_server]
    unknown_method_reply
    [where request = "JObj [(''jsonrpc'', JStr ''2.0''), (''id'', JStr ''abc''),
                            (''method'', JStr ''notifications/initialized'')]"
       and kvs = "[(''jsonrpc'', JStr ''2.0''), (''id'', JStr ''abc''),
                   (''method'', JStr ''notifications/initialized'')]"
       and m = "''notifications/initialized''" and srv = faulty_server]
  by (simp add: methods_def)



text \<open>
  C6. A request carries an identifier other than null and names a registered method,
  and the method's handler raises a fault. If the exception is a \<^verbatim>\<open>ValueError\<close>, the
  reply is an error with code -32602. Otherwise the reply is an error with code -32603
  and the fixed message "Internal server error"; the text of the exception appears in
  the \<^verbatim>\<open>data\<close> field alone.
\<close>

theorem handler_fault_reply:
  assumes "request = JObj kvs"
    and "map_of kvs ''id'' = Some request_id" and "request_id \<noteq> JNull"
    and "map_of kvs ''method'' = Some (JStr m)"
    and "methods m = Some handler"
    and "handler (srv\<lparr> calls := calls srv @ [MethodCall m] \<rparr>)
           (case map_of kvs ''params'' of None \<Rightarrow> JObj [] | Some p \<Rightarrow> p) =
         (Inl (Fault e), srv')"
  shows "handle_request srv request =
           (Inr (Some (JObj [(''jsonrpc'', JStr ''2.0''), (''id'', request_id),
                   (''error'',
                      (if exc_class e = ValueError
                       then JObj [(''code'', JNum (- 32602)), (''message'', JStr (exc_str e))]
                       else JObj [(''code'', JNum (- 32603)),
                                  (''message'', JStr ''Internal server error''),
                                  (''data'', JObj [(''details'', JStr (exc_str e))])]))])),
            srv')"
  using assms methods_registered[of m handler]
  by (simp add: handle_request_def create_error_response_def)

theorem handler_fault_reply_witness:
  "fst (handle_request faulty_server
     (JObj [(''jsonrpc'', JStr ''2.0''), (''id'', JNum 3), (''method'', JStr ''prompts/get''),
            (''params'', JObj [(''name'', JStr ''nope'')])])) =
   Inr (Some (JObj [(''jsonrpc'', JStr ''2.0''), (''id'', JNum 3),
                    (''error'', JObj [(''code'', JNum (- 32602)),
                                      (''message'', JStr ''Prompt not found: nope'')])]))
   \<and>
   fst (handle_request faulty_server
     (JObj [(''jsonrpc'', JStr ''2.0''), (''id'', JNum 4), (''method'', JStr ''resources/read''),
            (''params'', JObj [(''uri'', JStr ''file:///broken'')])])) =
   Inr (Some (JObj [(''jsonrpc'', JStr ''2.0''), (''id'', JNum 4),
                    (''error'', JObj [(''code'', JNum (- 32603)),
                                      (''message'', JStr ''Internal server error''),
                                      (''data'', JObj [(''details'', JStr ''disk failure'')])])]))"
proof -
  let ?r1 = "[(''jsonrpc'', JStr ''2.0''), (''id'', JNum 3), (''method'', JStr ''prompts/get''),
            (''params'', JObj [(''name'', JStr ''nope'')])]"
  let ?r2 = "[(''jsonrpc'', JStr ''2.0''), (''id'', JNum 4), (''method'', JStr ''resources/read''),
            (''params'', JObj [(''uri'', JStr ''file:///broken'')])]"
  have a: "handle_prompts_get
             (faulty_server\<lparr> calls := calls faulty_server @ [MethodCall ''prompts/get''] \<rparr>)
             (JObj [(''name'', JStr ''nope'')]) =
           (Inl (Fault (Exc ValueError ''Prompt not found: nope'')),
            faulty_server\<lparr> calls := calls faulty_server @ [MethodCall ''prompts/get''] \<rparr>)"
    by (simp add: handle_prompts_get_def faulty_server_def register_resource_def
          register_tool_def new_server_def)
  have b: "handle_resources_read
             (faulty_server\<lparr> calls := calls faulty_server @ [MethodCall ''resources/read''] \<rparr>)
             (JObj [(''uri'', JStr ''file:///broken'')]) =
           (Inl (Fault (Exc OtherException ''disk failure'')),
            faulty_server\<lparr> calls := [MethodCall ''resources/read'',
                                      ResourceCall ''file:///broken''] \<rparr>)"
    by (simp add: handle_resources_read_def faulty_server_def register_resource_def
          register_tool_def new_server_def)
  show ?thesis
    using handler_fault_reply[where request = "JObj ?r1" and kvs = ?r1 and request_id = "JNum 3"
            and m = "''prompts/get''" and handler = handle_prompts_get and srv = faulty_server
            and e = "Exc ValueError ''Prompt not found: nope''"
            and srv' = "faulty_server\<lparr> calls := calls faulty_server @
                                                     [MethodCall ''prompts/get''] \<rparr>"]
          handler_fault_reply[where request = "JObj ?r2" and kvs = ?r2 and request_id = "JNum 4"
            and m = "''resources/read''" and handler = handle_resources_read
            and srv = faulty_server
            and e = "Exc OtherException ''disk failure''"
            and srv' = "faulty_server\<lparr> calls := [MethodCall ''resources/read'',
                                                   ResourceCall ''file:///broken''] \<rparr>"]
          a b
    by (simp add: methods_def)
qed

text \<open>
  C9, as stated, fails. A registered tool whose handler raises \<^verbatim>\<open>SystemExit\<close> is called
  by a request with an identifier: the exception is no instance of \<^verbatim>\<open>Exception\<close>, it
  passes the \<^verbatim>\<open>except Exception\<close> clause of \<^verbatim>\<open>_handle_tools_call\<close> and the two clauses of
  \<^verbatim>\<open>handle_request\<close>, no reply is built, and it leaves \<^verbatim>\<open>run\<close> with nothing written.
\<close>

theorem exiting_tool_gets_no_reply:
  "handle_request exiting_server
     (JObj [(''jsonrpc'', JStr ''2.0''), (''id'', JNum 5), (''method'', JStr ''tools/call''),
            (''params'', JObj [(''name'', JStr ''quit''), (''arguments'', JObj [])])]) =
   (Inl (Exit SystemExit ''1''),
    exiting_server\<lparr> calls := [MethodCall ''tools/call'', ToolCall ''quit''] \<rparr>)"
  by (simp add: handle_request_def methods_def handle_tools_call_def exiting_server_def
        register_tool_def new_server_def)

text \<open>
  C9, amended. A \<^verbatim>\<open>tools/call\<close> request carries an identifier other than null and names
  a registered tool, and the tool's handler raises an exception that is an instance of
  \<^verbatim>\<open>Exception\<close>. The reply is a success reply: it has a \<^verbatim>\<open>result\<close> and no \<^verbatim>\<open>error\<close>, the
  result has \<^verbatim>\<open>isError\<close> true and one content item whose text is "Error: " followed by
  the text of the exception.
\<close>

theorem tool_fault_is_result:
  assumes "request = JObj kvs"
    and "map_of kvs ''id'' = Some request_id" and "request_id \<noteq> JNull"
    and "map_of kvs ''method'' = Some (JStr ''tools/call'')"
    and "map_of kvs ''params'' = Some (JObj ps)"
    and "map_of ps ''name'' = Some (JStr nm)"
    and "tool_handlers srv nm = Some handler"
    and "handler (case map_of ps ''arguments'' of None \<Rightarrow> JObj [] | Some a \<Rightarrow> a) =
           Inl (Fault e)"
  shows "handle_request srv request =
           (Inr (Some (JObj [(''jsonrpc'', JStr ''2.0''), (''id'', request_id),
                   (''result'',
                      JObj [(''content'',
                               JArr [JObj [(''type'', JStr ''text''),
                                           (''text'', JStr (''Error: '' @ exc_str e))]]),
                            (''isError'', JBool True)])])),
            srv\<lparr> calls := calls srv @ [MethodCall ''tools/call'', ToolCall nm] \<rparr>)"
proof -
  have "handle_tools_call (srv\<lparr> calls := calls srv @ [MethodCall ''tools/call''] \<rparr>) (JObj ps) =
           (Inr (tool_content (''Error: '' @ exc_str e) True),
            srv\<lparr> calls := calls srv @ [MethodCall ''tools/call'', ToolCall nm] \<rparr>)"
    using tools_call_fault[of ps nm "srv\<lparr> calls := calls srv @ [MethodCall ''tools/call''] \<rparr>"
            handler e]
      assms(6-8) by simp
  then show ?thesis
    using assms(1-5) methods_tools_call
    by (simp add: handle_request_def create_success_response_def tool_content_def)
qed

theorem tool_fault_is_result_witness:
  "handle_request faulty_server
     (JObj [(''jsonrpc'', JStr ''2.0''), (''id'', JNum 5), (''method'', JStr ''tools/call''),
            (''params'', JObj [(''name'', JStr ''boom''), (''arguments'', JObj [])])]) =
   (Inr (Some (JObj [(''jsonrpc'', JStr ''2.0''), (''id'', JNum 5),
                     (''result'',
                        JObj [(''content'',
                                 JArr [JObj [(''type'', JStr ''text''),
                                             (''text'', JStr ''Error: division by zero'')]]),
                              (''isError'', JBool True)])])),
    faulty_server\<lparr> calls := [MethodCall ''tools/call'', ToolCall ''boom''] \<rparr>)"
proof -
  let ?ps = "[(''name'', JStr ''boom''), (''arguments'', JObj [])]"
  let ?r = "[(''jsonrpc'', JStr ''2.0''), (''id'', JNum 5), (''method'', JStr ''tools/call''),
            (''params'', JObj ?ps)]"
  have h: "tool_handlers faulty_server ''boom'' =
             Some (\<lambda>args. Inl (Fault (Exc OtherException ''division by zero'')))"
    by (simp add: faulty_server_def register_resource_def register_tool_def)
  show ?thesis
    using tool_fault_is_result[where request = "JObj ?r" and kvs = ?r and request_id = "JNum 5"
            and ps = ?ps and nm = "''boom''" and srv = faulty_server
            and handler = "\<lambda>args. Inl (Fault (Exc OtherException ''division by zero''))"
            and e = "Exc OtherException ''division by zero''"] h faulty_server_calls
    by simp
qed

text \<open>
  C10, as stated, fails. A \<^verbatim>\<open>tools/call\<close> request with an identifier gives a list as
  \<^verbatim>\<open>name\<close>, which is no registered tool: the test \<^verbatim>\<open>tool_name not in self.tool_handlers\<close>
  raises \<^verbatim>\<open>TypeError\<close>, and the reply is an error with code -32603, not -32602.
\<close>

theorem list_name_internal_error:
  "fst (handle_request faulty_server
     (JObj [(''jsonrpc'', JStr ''2.0''), (''id'', JNum 6), (''method'', JStr ''tools/call''),
            (''params'', JObj [(''name'', JArr [])])])) =
   Inr (Some (JObj [(''jsonrpc'', JStr ''2.0''), (''id'', JNum 6),
                    (''error'', JObj [(''code'', JNum (- 32603)),
                                      (''message'', JStr ''Internal server error''),
                                      (''data'',
                                         JObj [(''details'',
                                                  JStr (''unhashable type: '' @ sq @ ''list'' @
                                                        sq))])])]))"
  by (simp add: handle_request_def methods_def handle_tools_call_def
        create_error_response_def)

text \<open>
  C10, amended. A \<^verbatim>\<open>tools/call\<close> request carries an identifier other than null, its
  parameters are an object (or absent), and the \<^verbatim>\<open>name\<close> they give is a scalar (a
  string, a number, a boolean or null) or is absent, and is not a registered tool. The
  reply is an error with code -32602, not -32601, whose message is "Tool not found: "
  followed by the name as Python prints it.
\<close>

theorem unknown_tool_reply:
  assumes "request = JObj kvs"
    and "map_of kvs ''id'' = Some request_id" and "request_id \<noteq> JNull"
    and "map_of kvs ''method'' = Some (JStr ''tools/call'')"
    and "(case map_of kvs ''params'' of None \<Rightarrow> JObj [] | Some p \<Rightarrow> p) = JObj ps"
    and "hash_key (case map_of ps ''name'' of None \<Rightarrow> JNull | Some v \<Rightarrow> v) = Inr k"
    and "lookup_str k (tool_handlers srv) = None"
  shows "handle_request srv request =
           (Inr (Some (JObj [(''jsonrpc'', JStr ''2.0''), (''id'', request_id),
                   (''error'', JObj [(''code'', JNum (- 32602)),
                                     (''message'', JStr (''Tool not found: '' @ key_str k))])])),
            srv\<lparr> calls := calls srv @ [MethodCall ''tools/call''] \<rparr>)
         \<and> sublist (key_str k) (''Tool not found: '' @ key_str k)"
proof -
  have "handle_tools_call (srv\<lparr> calls := calls srv @ [MethodCall ''tools/call''] \<rparr>) (JObj ps) =
          (Inl (Fault (Exc ValueError (''Tool not found: '' @ key_str k))),
           srv\<lparr> calls := calls srv @ [MethodCall ''tools/call''] \<rparr>)"
    using tools_call_unknown[of ps k "srv\<lparr> calls := calls srv @ [MethodCall ''tools/call''] \<rparr>"]
      assms(6,7) by simp
  then have "handle_request srv request =
           (Inr (Some (JObj [(''jsonrpc'', JStr ''2.0''), (''id'', request_id),
                   (''error'', JObj [(''code'', JNum (- 32602)),
                                     (''message'', JStr (''Tool not found: '' @ key_str k))])])),
            srv\<lparr> calls := calls srv @ [MethodCall ''tools/call''] \<rparr>)"
    using assms(1-5) methods_tools_call
    by (simp add: handle_request_def create_error_response_def)
  then show ?thesis
    using sublist_after_prefix[of "key_str k" "''Tool not found: ''"] by blast
qed

theorem unknown_tool_reply_witness:
  "handle_request faulty_server
     (JObj [(''jsonrpc'', JStr ''2.0''), (''id'', JNum 6), (''method'', JStr ''tools/call''),
            (''params'', JObj [(''name'', JStr ''non_existent_tool''),
                               (''arguments'', JObj [])])]) =
   (Inr (Some (JObj [(''jsonrpc'', JStr ''2.0''), (''id'', JNum 6),
                     (''error'', JObj [(''code'', JNum (- 32602)),
                                       (''message'',
                                          JStr ''Tool not found: non_existent_tool'')])])),
    faulty_server\<lparr> calls := [MethodCall ''tools/call''] \<rparr>)"
proof -
  let ?ps = "[(''name'', JStr ''non_existent_tool''), (''arguments'', JObj [])]"
  let ?r = "[(''jsonrpc'', JStr ''2.0''), (''id'', JNum 6), (''method'', JStr ''tools/call''),
            (''params'', JObj ?ps)]"
  have h: "tool_handlers faulty_server ''non_existent_tool'' = None"
    by (simp add: faulty_server_def register_resource_def register_tool_def new_server_def)
  show ?thesis
    using unknown_tool_reply[where request = "JObj ?r" and kvs = ?r and request_id = "JNum 6"
            and ps = ?ps and k = "KStr ''non_existent_tool''" and srv = faulty_server]
      h faulty_server_calls
    by simp
qed



section \<open>Duplicate replies and malformed lines\<close>

text \<open>
  C7, as stated, fails. One call is in flight and two replies with its identifier are
  handled before the caller wakes: the second is handled exactly as the first, it is
  not reported as absent, and it changes the slot, which then holds both replies.
\<close>

theorem second_reply_is_queued:
  "queues (snd (handle_message in_flight reply_x)) 0 = [reply_x]
   \<and> fst (handle_message (snd (handle_message in_flight reply_x)) reply_y) = Inr ()
   \<and> queues (snd (handle_message (snd (handle_message in_flight reply_x)) reply_y)) 0
       = [reply_x, reply_y]"
  by (simp add: in_flight_eq handle_message_def pending_queue_def reply_x_def reply_y_def
        new_client_def)

text \<open>
  C7, amended. When a slot is resolved with \<^verbatim>\<open>x\<close> and then again with \<^verbatim>\<open>y\<close>, the caller
  observes \<^verbatim>\<open>x\<close>: it returns what it makes of \<^verbatim>\<open>x\<close>, whether the second reply is handled
  before the caller wakes or not at all. A second reply handled after the caller has
  returned changes nothing; one handled before is appended to the caller's queue behind
  \<^verbatim>\<open>x\<close>, where nothing reads it.
\<close>

theorem first_reply_wins:
  assumes "pending_requests c i = Some q" and "queues c q = []"
    and "map_of kx ''id'' = Some (JNum i)" and "map_of ky ''id'' = Some (JNum i)"
    and "c1 = snd (handle_message c (JObj kx))"
  shows "fst (send_request_end (snd (handle_message c1 (JObj ky))) (i, q)) =
           response_outcome (JObj kx)
       \<and> fst (send_request_end c1 (i, q)) = response_outcome (JObj kx)
       \<and> handle_message (snd (send_request_end c1 (i, q))) (JObj ky) =
           (Inr (), snd (send_request_end c1 (i, q)))
       \<and> queues (snd (handle_message c1 (JObj ky))) q = [JObj kx, JObj ky]"
proof -
  have c1: "c1 = c\<lparr> queues := (queues c)(q := [JObj kx]) \<rparr>"
    using handle_message_reply[OF assms(3) assms(1)] assms(2,5) by simp
  have c2: "snd (handle_message c1 (JObj ky)) =
              c\<lparr> queues := (queues c)(q := [JObj kx, JObj ky]) \<rparr>"
    using handle_message_reply[of ky i c1 q] assms(1,4) by (simp add: c1)
  have 1: "fst (send_request_end (snd (handle_message c1 (JObj ky))) (i, q)) =
             response_outcome (JObj kx)"
    by (simp add: c2 send_request_end_def)
  have 2: "fst (send_request_end c1 (i, q)) = response_outcome (JObj kx)"
    by (simp add: c1 send_request_end_def)
  have 3: "handle_message (snd (send_request_end c1 (i, q))) (JObj ky) =
           (Inr (), snd (send_request_end c1 (i, q)))"
    using assms(4) send_request_end_removes by (rule handle_message_unknown_id)
  have 4: "queues (snd (handle_message c1 (JObj ky))) q = [JObj kx, JObj ky]"
    by (simp add: c2)
  from 1 2 3 4 show ?thesis by blast
qed

theorem first_reply_wins_witness:
  "pending_requests in_flight 1 = Some 0 \<and> queues in_flight 0 = []
   \<and> response_outcome reply_x = Inr (JStr ''x'')
   \<and> fst (send_request_end
            (snd (handle_message (snd (handle_message in_flight reply_x)) reply_y)) (1, 0)) =
       response_outcome reply_x"
proof -
  have kx: "map_of [(''jsonrpc'', JStr ''2.0''), (''id'', JNum 1), (''result'', JStr ''x'')] ''id''
              = Some (JNum 1)"
    and ky: "map_of [(''jsonrpc'', JStr ''2.0''), (''id'', JNum 1), (''result'', JStr ''y'')] ''id''
              = Some (JNum 1)"
    by simp_all
  have o: "response_outcome reply_x = Inr (JStr ''x'')"
    unfolding reply_x_def by (rule response_outcome_result) simp_all
  show ?thesis
    using first_reply_wins[OF in_flight_slot kx ky refl] in_flight_slot o
    unfolding reply_x_def reply_y_def
    by (elim conjE) (intro conjI, assumption+)
qed

text \<open>
  C8, as stated, fails. A line of a thousand opening brackets is not well-formed JSON,
  and \<^verbatim>\<open>json.loads\<close> raises \<^verbatim>\<open>RecursionError\<close> on it, not \<^verbatim>\<open>JSONDecodeError\<close>: the server's
  loop does not catch it, writes nothing, and exits with status 1, so the request on
  the next line is never answered. Bytes that cannot be decoded raise at the client's
  \<^verbatim>\<open>for\<close> statement: the reader loop ends, and the reply on the next line never reaches
  the caller's queue.
\<close>

theorem other_decode_failures_stop_reading:
  "sample_loads (py_strip deep_line) = Raises recursion_error
   \<and> run sample_loads (new_server ''example-server'' ''1.0.0'')
         [Text deep_line, Text (request_line @ [CHR 0x0A])] =
       (Exited recursion_error, new_server ''example-server'' ''1.0.0'')
   \<and> stdout (new_server ''example-server'' ''1.0.0'') = []
   \<and> read_loop sample_loads in_flight [undecodable_bytes, Text (reply_line @ [CHR 0x0A])] =
       in_flight
   \<and> queues in_flight 0 = []"
proof -
  have d: "deep_line \<noteq> []"
    by (rule deep_line_ends)
  have 1: "run sample_loads (new_server ''example-server'' ''1.0.0'')
             [Text deep_line, Text (request_line @ [CHR 0x0A])] =
           (Exited recursion_error, new_server ''example-server'' ''1.0.0'')"
    using d by (simp add: strip_deep sample_loads_def)
  have 2: "read_loop sample_loads in_flight [undecodable_bytes, Text (reply_line @ [CHR 0x0A])] =
           in_flight"
    by (simp add: read_loop_def undecodable_bytes_def)
  have 3: "stdout (new_server ''example-server'' ''1.0.0'') = []"
    by (simp add: new_server_def)
  from loads_deep 1 3 2 in_flight_slot(2) show ?thesis
    by (intro conjI)
qed

text \<open>
  C8, amended. A line on which \<^verbatim>\<open>json.loads\<close> raises \<^verbatim>\<open>JSONDecodeError\<close> does not stop
  either loop. The client's reader goes on with the rest of the stream from the same
  state, and it does so after any other exception of \<^verbatim>\<open>json.loads\<close> as well. The server
  writes a reply with code -32700 (for a line that is not blank) and goes on with the
  rest of the stream. So everything that follows the line is processed as it would be
  without it.
\<close>

theorem malformed_line_skipped:
  assumes "loads (py_strip l) = JSONDecodeError"
  shows "read_loop loads c (Text l # ls) = read_loop loads c ls
       \<and> run loads srv (Text l # ls) =
           run loads
             (if py_strip l = [] then srv
              else write_message srv
                     (create_error_response JNull PARSE_ERROR ''Parse error'' None))
             ls
       \<and> (loads (py_strip l') = Raises e \<longrightarrow>
            read_loop loads c (Text l' # ls) = read_loop loads c ls)"
proof -
  have 1: "read_loop loads c (Text l # ls) = read_loop loads c ls"
    using assms by (simp add: read_loop_def read_lines_stopped)
  have 2: "run loads srv (Text l # ls) =
           run loads
             (if py_strip l = [] then srv
              else write_message srv
                     (create_error_response JNull PARSE_ERROR ''Parse error'' None))
             ls"
    using assms by simp
  have 3: "loads (py_strip l') = Raises e \<longrightarrow>
            read_loop loads c (Text l' # ls) = read_loop loads c ls"
    by (simp add: read_loop_def read_lines_stopped)
  from 1 2 3 show ?thesis by blast
qed

theorem malformed_line_skipped_witness:
  "sample_loads (py_strip garbage_line) = JSONDecodeError
   \<and> queues (read_loop sample_loads in_flight
               [Text garbage_line, Text (reply_line @ [CHR 0x0A])]) 0 =
       [JObj [(''jsonrpc'', JStr ''2.0''), (''id'', JNum 1), (''result'', JObj [])]]
   \<and> run sample_loads (new_server ''example-server'' ''1.0.0'')
         [Text garbage_line, Text (request_line @ [CHR 0x0A])] =
       (Finished,
        (new_server ''example-server'' ''1.0.0'')
          \<lparr> calls := [MethodCall ''tools/list''],
            stdout := [JObj [(''jsonrpc'', JStr ''2.0''), (''id'', JNull),
                             (''error'', JObj [(''code'', JNum (- 32700)),
                                               (''message'', JStr ''Parse error'')])],
                       JObj [(''jsonrpc'', JStr ''2.0''), (''id'', JNum 1),
                             (''result'', JObj [(''tools'', JArr [])])]] \<rparr>)
   \<and> queues (read_loop sample_loads in_flight
               [Text deep_line, Text (reply_line @ [CHR 0x0A])]) 0 =
       [JObj [(''jsonrpc'', JStr ''2.0''), (''id'', JNum 1), (''result'', JObj [])]]"
proof -
  note h = loads_garbage
  have a: "queues (read_loop sample_loads in_flight [Text (reply_line @ [CHR 0x0A])]) 0 =
             [JObj [(''jsonrpc'', JStr ''2.0''), (''id'', JNum 1), (''result'', JObj [])]]"
    by (simp add: read_loop_def strip_reply loads_reply lines_nonempty handle_message_def
          pending_queue_def in_flight_eq new_client_def)
  have b: "run sample_loads
             (write_message (new_server ''example-server'' ''1.0.0'')
                (create_error_response JNull PARSE_ERROR ''Parse error'' None))
             [Text (request_line @ [CHR 0x0A])] =
       (Finished,
        (new_server ''example-server'' ''1.0.0'')
          \<lparr> calls := [MethodCall ''tools/list''],
            stdout := [JObj [(''jsonrpc'', JStr ''2.0''), (''id'', JNull),
                             (''error'', JObj [(''code'', JNum (- 32700)),
                                               (''message'', JStr ''Parse error'')])],
                       JObj [(''jsonrpc'', JStr ''2.0''), (''id'', JNum 1),
                             (''result'', JObj [(''tools'', JArr [])])]] \<rparr>)"
    by (simp add: strip_request loads_request lines_nonempty handle_request_def methods_def
          handle_tools_list_def write_message_def create_error_response_def
          create_success_response_def new_server_def)
  have s: "py_strip garbage_line \<noteq> []"
    by (simp add: strip_garbage)
  have 1: "read_loop sample_loads in_flight [Text garbage_line, Text (reply_line @ [CHR 0x0A])] =
           read_loop sample_loads in_flight [Text (reply_line @ [CHR 0x0A])]"
    using malformed_line_skipped[where loads = sample_loads and l = garbage_line
            and c = in_flight and ls = "[Text (reply_line @ [CHR 0x0A])]"] h
    by blast
  have 2: "run sample_loads (new_server ''example-server'' ''1.0.0'')
             [Text garbage_line, Text (request_line @ [CHR 0x0A])] =
           run sample_loads
             (write_message (new_server ''example-server'' ''1.0.0'')
                (create_error_response JNull PARSE_ERROR ''Parse error'' None))
             [Text (request_line @ [CHR 0x0A])]"
    using malformed_line_skipped[where loads = sample_loads and l = garbage_line
            and srv = "new_server ''example-server'' ''1.0.0''"
            and ls = "[Text (request_line @ [CHR 0x0A])]"] h s
    by (simp only: if_False)
  have 3: "read_loop sample_loads in_flight [Text deep_line, Text (reply_line @ [CHR 0x0A])] =
           read_loop sample_loads in_flight [Text (reply_line @ [CHR 0x0A])]"
    using malformed_line_skipped[where loads = sample_loads and l = garbage_line
            and l' = deep_line and e = recursion_error
            and c = in_flight and ls = "[Text (reply_line @ [CHR 0x0A])]"] h loads_deep
    by blast
  show ?thesis
    using h a b by (simp only: 1 2 3 simp_thms)
qed

end
